theory Spec2Isabelle
  imports Main
begin

section \<open>Python strings\<close>

text \<open>
  A Python \<open>str\<close> is a sequence of Unicode code points, and the program handles paths and
  messages outside ASCII, so a string is a list of code points. \<open>str\<close> embeds an ASCII
  literal; the Chinese literals of the source are written out by code point below.
\<close>

type_synonym pystr = "nat list"

definition str :: "string \<Rightarrow> pystr" where
  "str s = map of_char s"

text \<open>\<open>s.endswith(suf)\<close>\<close>

definition endswith :: "pystr \<Rightarrow> pystr \<Rightarrow> bool" where
  "endswith s suf = (length suf \<le> length s \<and> drop (length s - length suf) s = suf)"

text \<open>
  \<open>c.isspace()\<close> for one code point: the characters CPython's \<open>str.rstrip()\<close> and
  \<open>str.isspace()\<close> treat as whitespace (tab to carriage return, the four separators
  U+001C to U+001F, space, U+0085, U+00A0, U+1680, U+2000 to U+200A, U+2028, U+2029,
  U+202F, U+205F, U+3000).
\<close>

definition isspace :: "nat \<Rightarrow> bool" where
  "isspace c = ((9 \<le> c \<and> c \<le> 13) \<or> (28 \<le> c \<and> c \<le> 32) \<or> c = 133 \<or> c = 160 \<or> c = 5760
     \<or> (8192 \<le> c \<and> c \<le> 8202) \<or> c = 8232 \<or> c = 8233 \<or> c = 8239 \<or> c = 8287 \<or> c = 12288)"

text \<open>\<open>s.rstrip()\<close>\<close>

definition rstrip :: "pystr \<Rightarrow> pystr" where
  "rstrip s = rev (dropWhile isspace (rev s))"

text \<open>\<open>s.strip(chars)\<close>: every leading and trailing character that is in \<open>chars\<close> goes.\<close>

definition strip_chars :: "pystr \<Rightarrow> pystr \<Rightarrow> pystr" where
  "strip_chars chars s =
     rev (dropWhile (\<lambda>c. c \<in> set chars) (rev (dropWhile (\<lambda>c. c \<in> set chars) s)))"

text \<open>\<open>sep.join(xs)\<close>\<close>

fun join_str :: "pystr \<Rightarrow> pystr list \<Rightarrow> pystr" where
  "join_str sep [] = []"
| "join_str sep [x] = x"
| "join_str sep (x # y # ys) = x @ sep @ join_str sep (y # ys)"

text \<open>The line of fifty dashes, \<open>"-" * 50\<close>.\<close>

definition dashes :: pystr where
  "dashes = replicate 50 (of_char CHR ''-'')"

subsection \<open>The literals of the source that are not ASCII\<close>

text \<open>U+6267 U+884C U+547D U+4EE4 ": " (running the command).\<close>

definition MSG_RUNNING :: pystr where
  "MSG_RUNNING = [25191, 34892, 21629, 20196, 58, 32]"

text \<open>U+6253 U+5305 U+6210 U+529F "!" (packing succeeded).\<close>

definition MSG_PACK_OK :: pystr where
  "MSG_PACK_OK = [25171, 21253, 25104, 21151, 33]"

text \<open>U+6253 U+5305 U+5931 U+8D25 (packing failed).\<close>

definition MSG_PACK_FAILED :: pystr where
  "MSG_PACK_FAILED = [25171, 21253, 22833, 36133]"

text \<open>U+6267 U+884C U+5F02 U+5E38 ": " (exception while running).\<close>

definition MSG_RUN_EXCEPTION :: pystr where
  "MSG_RUN_EXCEPTION = [25191, 34892, 24322, 24120, 58, 32]"

text \<open>U+8F93 U+51FA (output): the name of the output folder.\<close>

definition OUTPUT_NAME :: pystr where
  "OUTPUT_NAME = [36755, 20986]"

text \<open>U+63D0 U+793A (notice): the title of the warning boxes.\<close>

definition TITLE_NOTICE :: pystr where
  "TITLE_NOTICE = [25552, 31034]"

text \<open>U+8BF7 U+5148 U+9009 U+62E9 U+811A U+672C (select a script first).\<close>

definition MSG_SELECT_FIRST :: pystr where
  "MSG_SELECT_FIRST = [35831, 20808, 36873, 25321, 33050, 26412]"

text \<open>U+8BF7 U+5148 U+5B89 U+88C5 " PyInstaller" (install PyInstaller first).\<close>

definition MSG_INSTALL_FIRST :: pystr where
  "MSG_INSTALL_FIRST = [35831, 20808, 23433, 35013] @ str '' PyInstaller''"

text \<open>U+9519 U+8BEF (error): the title of the critical boxes.\<close>

definition TITLE_ERROR :: pystr where
  "TITLE_ERROR = [38169, 35823]"

text \<open>U+6587 U+4EF6 U+4E0D U+5B58 U+5728 (the file does not exist).\<close>

definition MSG_NO_FILE :: pystr where
  "MSG_NO_FILE = [25991, 20214, 19981, 23384, 22312]"

text \<open>U+5DF2 U+9009 U+62E9 ": " (selected).\<close>

definition MSG_SELECTED :: pystr where
  "MSG_SELECTED = [24050, 36873, 25321, 58, 32]"

text \<open>U+5B8C U+6210 (done): the title of the boxes shown on success.\<close>

definition TITLE_DONE :: pystr where
  "TITLE_DONE = [23436, 25104]"

text \<open>
  U+6253 U+5305 U+5B8C U+6210 U+FF0C U+662F U+5426 U+6253 U+5F00 U+8F93 U+51FA U+76EE U+5F55
  U+FF1F (packing is done, open the output folder?).
\<close>

definition MSG_OPEN_OUTPUT :: pystr where
  "MSG_OPEN_OUTPUT = [25171, 21253, 23436, 25104, 65292, 26159, 21542, 25171, 24320, 36755,
     20986, 30446, 24405, 65311]"

text \<open>U+6B63 U+5728 U+5B89 U+88C5 " PyInstaller..." (installing PyInstaller).\<close>

definition MSG_INSTALLING :: pystr where
  "MSG_INSTALLING = [27491, 22312, 23433, 35013] @ str '' PyInstaller...''"

text \<open>U+5B89 U+88C5 U+6210 U+529F "!" (installation succeeded).\<close>

definition MSG_INSTALL_OK :: pystr where
  "MSG_INSTALL_OK = [23433, 35013, 25104, 21151, 33]"

text \<open>"PyInstaller " U+5B89 U+88C5 U+6210 U+529F (PyInstaller installed).\<close>

definition MSG_INSTALLED :: pystr where
  "MSG_INSTALLED = str ''PyInstaller '' @ [23433, 35013, 25104, 21151]"

text \<open>U+5B89 U+88C5 U+5931 U+8D25 (installation failed).\<close>

definition MSG_INSTALL_FAILED :: pystr where
  "MSG_INSTALL_FAILED = [23433, 35013, 22833, 36133]"

text \<open>U+5B89 U+88C5 U+5F02 U+5E38 ": " (exception while installing).\<close>

definition MSG_INSTALL_EXCEPTION :: pystr where
  "MSG_INSTALL_EXCEPTION = [23433, 35013, 24322, 24120, 58, 32]"

text \<open>U+65E0 U+6CD5 U+6253 U+5F00 ": " (cannot open).\<close>

definition MSG_CANNOT_OPEN :: pystr where
  "MSG_CANNOT_OPEN = [26080, 27861, 25171, 24320, 58, 32]"

section \<open>The world outside the program\<close>

text \<open>
  What \<open>subprocess.Popen\<close> is called with. \<open>stdout\<close> and \<open>stderr\<close> take the constants of
  the \<open>subprocess\<close> module.
\<close>

datatype redirect = PIPE | STDOUT | INHERIT

record popen_args =
  args :: "pystr list"
  stdout :: redirect
  stderr :: redirect
  text_mode :: bool
  cwd :: pystr

text \<open>
  What a spawned process does, as \<open>BuildThread.run\<close> sees it: \<open>Popen\<close> raises (with the
  message \<open>str(e)\<close>); or the process writes lines and reading the pipe then raises; or it
  writes lines, closes its output and exits with a return code; or it writes lines and
  neither closes its output nor exits. The lines are the items the iteration over
  \<open>process.stdout\<close> yields, line ends included.
\<close>

datatype proc_outcome =
    SpawnRaises pystr
  | StreamRaises "pystr list" pystr
  | Exited "pystr list" int
  | Hangs "pystr list"

text \<open>
  The operating system and the Python runtime: \<open>sys.executable\<close>, \<open>sys.argv\<close>, the
  functions of \<open>os.path\<close> the program calls (they depend on the platform and on the file
  system), the outcome of a \<open>Popen\<close> call, whether PyInstaller is found at start-up,
  whether opening a folder raises (\<open>Some\<close> of the message), and what a \<open>QLineEdit\<close> holds
  after \<open>setText(s)\<close>, that is what its \<open>text()\<close> returns then: Qt cuts a text that is
  longer than the line edit's \<open>maxLength\<close> (32767 by default, counted in Qt's own
  characters).
\<close>

record os_env =
  executable :: pystr
  argv :: "pystr list"
  path_exists :: "pystr \<Rightarrow> bool"
  abspath :: "pystr \<Rightarrow> pystr"
  dirname :: "pystr \<Rightarrow> pystr"
  path_join :: "pystr \<Rightarrow> pystr \<Rightarrow> pystr"
  popen :: "popen_args \<Rightarrow> proc_outcome"
  pyinstaller_found :: bool
  open_raises :: "pystr \<Rightarrow> pystr option"
  line_edit_text :: "pystr \<Rightarrow> pystr"

section \<open>BuildThread\<close>

record BuildThread =
  script_path :: pystr
  output_folder :: pystr
  onefile :: bool
  noconsole :: bool
  icon_path :: "pystr option"

text \<open>The two signals of the thread.\<close>

datatype signal = Log pystr | Finished bool

text \<open>
  \<open>BuildThread.run\<close>, the command: the list \<open>cmd\<close> is built by appending, in the order of
  the source. \<open>self.icon_path and os.path.exists(self.icon_path)\<close> holds for a path that is
  neither \<open>None\<close> nor empty and that exists.
\<close>

definition build_cmd :: "os_env \<Rightarrow> BuildThread \<Rightarrow> pystr list" where
  "build_cmd env t =
     (let cmd = [executable env, str ''-m'', str ''PyInstaller'',
                 str ''--distpath'', output_folder t,
                 str ''--noconfirm''];
          cmd = (if onefile t then cmd @ [str ''-F''] else cmd @ [str ''-D'']);
          cmd = (if noconsole t then cmd @ [str ''-w''] else cmd);
          cmd = (case icon_path t of
                   None \<Rightarrow> cmd
                 | Some p \<Rightarrow>
                     if p \<noteq> [] \<and> path_exists env p then cmd @ [str ''--icon'', p] else cmd)
      in cmd @ [script_path t])"

text \<open>The \<open>Popen\<close> call of \<open>run\<close>.\<close>

definition popen_call :: "os_env \<Rightarrow> BuildThread \<Rightarrow> popen_args" where
  "popen_call env t =
     (let script_dir = dirname env (abspath env (script_path t))
      in \<lparr>args = build_cmd env t, stdout = PIPE, stderr = STDOUT, text_mode = True,
          cwd = script_dir\<rparr>)"

text \<open>The loop \<open>for line in process.stdout: self.log_signal.emit(line.rstrip())\<close>.\<close>

fun forward_lines :: "pystr list \<Rightarrow> signal list" where
  "forward_lines [] = []"
| "forward_lines (line # rest) = Log (rstrip line) # forward_lines rest"

text \<open>
  \<open>BuildThread.run\<close>: its value is the sequence of signals the thread emits, in order.
  For a process that hangs the thread never leaves the loop, and the sequence is what it
  has emitted by then.
\<close>

definition run :: "os_env \<Rightarrow> BuildThread \<Rightarrow> signal list" where
  "run env t =
     [Log (MSG_RUNNING @ join_str (str '' '') (build_cmd env t)), Log dashes] @
     (case popen env (popen_call env t) of
        SpawnRaises e \<Rightarrow> [Log (MSG_RUN_EXCEPTION @ e), Finished False]
      | StreamRaises ls e \<Rightarrow> forward_lines ls @ [Log (MSG_RUN_EXCEPTION @ e), Finished False]
      | Exited ls returncode \<Rightarrow>
          forward_lines ls @
          (if returncode = 0 then [Log dashes, Log MSG_PACK_OK, Finished True]
           else [Log dashes, Log MSG_PACK_FAILED, Finished False])
      | Hangs ls \<Rightarrow> forward_lines ls)"

text \<open>The values \<open>finished_signal\<close> was emitted with, in the order of emission.\<close>

fun finished_reports :: "signal list \<Rightarrow> bool list" where
  "finished_reports [] = []"
| "finished_reports (Log m # rest) = finished_reports rest"
| "finished_reports (Finished b # rest) = b # finished_reports rest"

text \<open>The lines a process wrote before its end, its failure or its hanging.\<close>

fun lines_of :: "proc_outcome \<Rightarrow> pystr list" where
  "lines_of (SpawnRaises e) = []"
| "lines_of (StreamRaises ls e) = ls"
| "lines_of (Exited ls returncode) = ls"
| "lines_of (Hangs ls) = ls"

section \<open>The main window\<close>

text \<open>
  The message boxes of \<open>QMessageBox\<close> the program shows, with title and text, and the
  background threads it starts.
\<close>

datatype msgbox =
    Information pystr pystr
  | Warning pystr pystr
  | Critical pystr pystr
  | Question pystr pystr

datatype thread = BuildT BuildThread | InstallT

text \<open>
  The state of \<open>PyPackerWindow\<close>: its attributes, the state of the widgets the handlers
  read or write (the text of the line edits, the check boxes, whether a button is enabled
  and visible, the progress bar), and four records of what the window has done so far:
  the messages handed to the log view, the message boxes shown, the threads started and
  the folders opened. \<open>log_appended\<close> holds the arguments of the calls
  \<open>self.log_text.append(message)\<close> since the last \<open>self.log_text.clear()\<close>, in the order of
  the calls; how \<open>QTextEdit\<close> lays a message out (as plain or as rich text, in one paragraph
  or several) is Qt's and is not part of the state. Layout and style sheets are left out.
\<close>

record window =
  pyinstaller_available :: bool
  current_script :: "pystr option"
  build_thread :: "BuildThread option"
  path_edit :: pystr
  icon_edit :: pystr
  onefile_check :: bool
  noconsole_check :: bool
  pack_btn :: bool
  install_btn_enabled :: bool
  install_btn_visible :: bool
  progress_visible :: bool
  progress_range :: "nat \<times> nat"
  log_appended :: "pystr list"
  dialogs :: "msgbox list"
  started :: "thread list"
  opened :: "pystr list"

text \<open>\<open>PyPackerWindow.log\<close>: the message is handed to \<open>QTextEdit.append\<close>.\<close>

definition log :: "window \<Rightarrow> pystr \<Rightarrow> window" where
  "log w message = w\<lparr>log_appended := log_appended w @ [message]\<rparr>"

text \<open>\<open>PyPackerWindow.on_file_dropped\<close>\<close>

definition on_file_dropped :: "os_env \<Rightarrow> window \<Rightarrow> pystr \<Rightarrow> window" where
  "on_file_dropped env w file_path =
     (if path_exists env file_path \<or> endswith file_path (str ''.py'')
      then log (w\<lparr>path_edit := line_edit_text env file_path,
                    current_script := Some file_path, pack_btn := True\<rparr>)
             (MSG_SELECTED @ file_path)
      else w)"

text \<open>
  A drop event: whether its MIME data has URLs, and \<open>url.toLocalFile()\<close> of each URL.
  \<open>drop_urls\<close> is the loop of \<open>dropEvent\<close> with its \<open>break\<close>.
\<close>

record mime_data =
  has_urls :: bool
  urls :: "pystr list"

fun drop_urls :: "os_env \<Rightarrow> window \<Rightarrow> pystr list \<Rightarrow> window" where
  "drop_urls env w [] = w"
| "drop_urls env w (file_path # rest) =
     (if endswith file_path (str ''.py'') then on_file_dropped env w file_path
      else drop_urls env w rest)"

definition dropEvent :: "os_env \<Rightarrow> window \<Rightarrow> mime_data \<Rightarrow> window" where
  "dropEvent env w event = (if has_urls event then drop_urls env w (urls event) else w)"

text \<open>
  \<open>browse_file\<close> and \<open>browse_icon\<close>: \<open>file_path\<close> is what the file dialog returned, the
  empty string when it was cancelled.
\<close>

definition browse_file :: "os_env \<Rightarrow> window \<Rightarrow> pystr \<Rightarrow> window" where
  "browse_file env w file_path = (if file_path \<noteq> [] then on_file_dropped env w file_path else w)"

definition browse_icon :: "os_env \<Rightarrow> window \<Rightarrow> pystr \<Rightarrow> window" where
  "browse_icon env w file_path =
     (if file_path \<noteq> [] then w\<lparr>icon_edit := line_edit_text env file_path\<rparr> else w)"

text \<open>
  \<open>start_pack\<close>. \<open>not self.current_script\<close> holds for \<open>None\<close> and for the empty string;
  \<open>self.icon_edit.text() or None\<close> is \<open>None\<close> for the empty text.
\<close>

definition start_pack :: "os_env \<Rightarrow> window \<Rightarrow> window" where
  "start_pack env w =
     (if current_script w = None \<or> current_script w = Some []
      then w\<lparr>dialogs := dialogs w @ [Warning TITLE_NOTICE MSG_SELECT_FIRST]\<rparr>
      else if \<not> pyinstaller_available w
      then w\<lparr>dialogs := dialogs w @ [Warning TITLE_NOTICE MSG_INSTALL_FIRST]\<rparr>
      else
        (case current_script w of
           None \<Rightarrow> w
         | Some script \<Rightarrow>
             if \<not> path_exists env script
             then w\<lparr>dialogs := dialogs w @ [Critical TITLE_ERROR MSG_NO_FILE]\<rparr>
             else
               (let script_dir = dirname env (abspath env script);
                    out_dir = path_join env script_dir OUTPUT_NAME;
                    t = \<lparr>script_path = script,
                         output_folder = out_dir,
                         onefile = onefile_check w,
                         noconsole = noconsole_check w,
                         icon_path = (if icon_edit w \<noteq> [] then Some (icon_edit w) else None)\<rparr>
                in w\<lparr>log_appended := [], pack_btn := False, progress_visible := True,
                     progress_range := (0, 0), build_thread := Some t,
                     started := started w @ [BuildT t]\<rparr>)))"

text \<open>\<open>open_folder\<close>: the folder is opened, or the exception is logged.\<close>

definition open_folder :: "os_env \<Rightarrow> window \<Rightarrow> pystr \<Rightarrow> window" where
  "open_folder env w path =
     (case open_raises env path of
        None \<Rightarrow> w\<lparr>opened := opened w @ [path]\<rparr>
      | Some e \<Rightarrow> log w (MSG_CANNOT_OPEN @ e))"

text \<open>
  \<open>on_pack_finished\<close>; \<open>answer_yes\<close> is the user's answer to the question box. With no
  current script \<open>os.path.abspath(None)\<close> raises and the slot ends there.
\<close>

definition on_pack_finished :: "os_env \<Rightarrow> bool \<Rightarrow> window \<Rightarrow> bool \<Rightarrow> window" where
  "on_pack_finished env answer_yes w success =
     (let w = w\<lparr>progress_range := (0, 100), progress_visible := False, pack_btn := True\<rparr>
      in if success then
           (case current_script w of
              None \<Rightarrow> w
            | Some script \<Rightarrow>
                (let output_path = path_join env (dirname env (abspath env script)) OUTPUT_NAME;
                     w = w\<lparr>dialogs := dialogs w @ [Question TITLE_DONE MSG_OPEN_OUTPUT]\<rparr>
                 in if answer_yes then open_folder env w output_path else w))
         else w)"

text \<open>
  The connections \<open>start_pack\<close> makes: \<open>log_signal\<close> to \<open>log\<close>, \<open>finished_signal\<close> to
  \<open>on_pack_finished\<close>. \<open>deliver_all\<close> delivers the signals of a thread in their order.
\<close>

fun deliver :: "os_env \<Rightarrow> bool \<Rightarrow> window \<Rightarrow> signal \<Rightarrow> window" where
  "deliver env answer_yes w (Log message) = log w message"
| "deliver env answer_yes w (Finished success) = on_pack_finished env answer_yes w success"

fun deliver_all :: "os_env \<Rightarrow> bool \<Rightarrow> window \<Rightarrow> signal list \<Rightarrow> window" where
  "deliver_all env answer_yes w [] = w"
| "deliver_all env answer_yes w (s # rest) =
     deliver_all env answer_yes (deliver env answer_yes w s) rest"

text \<open>
  \<open>install_pyinstaller\<close> starts a plain thread for \<open>install_task\<close>; \<open>install_task\<close> is
  what that thread does to the window, given how \<open>pip\<close> ended.
\<close>

datatype pip_outcome = PipRaises pystr | PipExited int

definition install_pyinstaller :: "window \<Rightarrow> window" where
  "install_pyinstaller w =
     (log w MSG_INSTALLING)\<lparr>progress_visible := True, progress_range := (0, 0),
        install_btn_enabled := False, started := started w @ [InstallT]\<rparr>"

definition install_task :: "window \<Rightarrow> pip_outcome \<Rightarrow> window" where
  "install_task w result =
     (let w =
        (case result of
           PipExited returncode \<Rightarrow>
             if returncode = 0
             then (let w = log (w\<lparr>pyinstaller_available := True, pack_btn := True\<rparr>) MSG_INSTALL_OK
                   in w\<lparr>install_btn_visible := False,
                        dialogs := dialogs w @ [Information TITLE_DONE MSG_INSTALLED]\<rparr>)
             else (let w = log w MSG_INSTALL_FAILED
                   in w\<lparr>dialogs := dialogs w @ [Critical TITLE_ERROR MSG_INSTALL_FAILED],
                        install_btn_enabled := True\<rparr>)
         | PipRaises e \<Rightarrow>
             (let w = log w (MSG_INSTALL_EXCEPTION @ e)
              in w\<lparr>dialogs := dialogs w @ [Critical TITLE_ERROR e],
                   install_btn_enabled := True\<rparr>))
      in w\<lparr>progress_range := (0, 100), progress_visible := False\<rparr>)"

text \<open>
  The window as \<open>__init__\<close> and \<open>setup_ui\<close> leave it, and \<open>_handle_args\<close>, which
  \<open>__init__\<close> calls last. The install button exists only when PyInstaller was not found.
  The two \<open>strip\<close> calls take the double quotes (34) and then the single quotes (39) off
  both ends.
\<close>

definition setup_ui :: "os_env \<Rightarrow> window" where
  "setup_ui env =
     \<lparr>pyinstaller_available = pyinstaller_found env,
      current_script = None,
      build_thread = None,
      path_edit = [],
      icon_edit = [],
      onefile_check = True,
      noconsole_check = False,
      pack_btn = False,
      install_btn_enabled = (\<not> pyinstaller_found env),
      install_btn_visible = (\<not> pyinstaller_found env),
      progress_visible = False,
      progress_range = (0, 0),
      log_appended = [],
      dialogs = [],
      started = [],
      opened = []\<rparr>"

definition handle_args :: "os_env \<Rightarrow> window \<Rightarrow> window" where
  "handle_args env w =
     (if length (argv env) > 1 then
        (let script = argv env ! 1;
             script = strip_chars [39] (strip_chars [34] script)
         in if endswith script (str ''.py'') \<and> path_exists env script
            then start_pack env
                   (w\<lparr>path_edit := line_edit_text env script, current_script := Some script,
                      pack_btn := True\<rparr>)
            else w)
      else w)"

definition init :: "os_env \<Rightarrow> window" where
  "init env = handle_args env (setup_ui env)"

text \<open>
  What can happen to the window after start-up: a drop, a file chosen in one of the two
  dialogs, a check box set, a click on one of the two buttons (a button that is disabled
  or hidden does not emit \<open>clicked\<close>), a signal of the build thread arriving, and the
  install thread ending.
\<close>

datatype event =
    Drop mime_data
  | BrowseFile pystr
  | BrowseIcon pystr
  | SetOnefile bool
  | SetNoconsole bool
  | ClickPack
  | ClickInstall
  | FromBuild signal bool
  | InstallEnds pip_outcome

fun handle :: "os_env \<Rightarrow> window \<Rightarrow> event \<Rightarrow> window" where
  "handle env w (Drop m) = dropEvent env w m"
| "handle env w (BrowseFile p) = browse_file env w p"
| "handle env w (BrowseIcon p) = browse_icon env w p"
| "handle env w (SetOnefile b) = w\<lparr>onefile_check := b\<rparr>"
| "handle env w (SetNoconsole b) = w\<lparr>noconsole_check := b\<rparr>"
| "handle env w ClickPack = (if pack_btn w then start_pack env w else w)"
| "handle env w ClickInstall =
     (if install_btn_enabled w \<and> install_btn_visible w then install_pyinstaller w else w)"
| "handle env w (FromBuild s answer_yes) = deliver env answer_yes w s"
| "handle env w (InstallEnds r) = install_task w r"

fun handle_all :: "os_env \<Rightarrow> window \<Rightarrow> event list \<Rightarrow> window" where
  "handle_all env w [] = w"
| "handle_all env w (e # es) = handle_all env (handle env w e) es"

section \<open>Notions used to state the properties\<close>

text \<open>The two mode flags of PyInstaller that \<open>run\<close> chooses between.\<close>

definition is_mode_flag :: "pystr \<Rightarrow> bool" where
  "is_mode_flag a = (a = str ''-F'' \<or> a = str ''-D'')"

text \<open>
  The checks of \<open>start_pack\<close> pass: a script is selected (neither \<open>None\<close> nor empty),
  PyInstaller is available and the script exists.
\<close>

definition passes_checks :: "os_env \<Rightarrow> window \<Rightarrow> bool" where
  "passes_checks env w =
     (case current_script w of
        None \<Rightarrow> False
      | Some script \<Rightarrow> script \<noteq> [] \<and> pyinstaller_available w \<and> path_exists env script)"

text \<open>
  A file dialog of Qt returns the absolute path of the chosen file, or the empty string
  when it is cancelled; it never returns the bare string \<open>-F\<close> or \<open>-D\<close>. An event is
  \<open>from_dialog\<close> when the path it carries from a dialog is of that kind.
\<close>

fun from_dialog :: "event \<Rightarrow> bool" where
  "from_dialog (BrowseFile p) = (\<not> is_mode_flag p)"
| "from_dialog (BrowseIcon p) = (\<not> is_mode_flag p)"
| "from_dialog e = True"

text \<open>
  No path of a thread, and no path the window holds, is a mode flag: the invariant behind
  the one mode flag of every command line.
\<close>

definition flag_free_thread :: "BuildThread \<Rightarrow> bool" where
  "flag_free_thread t =
     (\<not> is_mode_flag (script_path t) \<and> \<not> is_mode_flag (output_folder t)
      \<and> (case icon_path t of None \<Rightarrow> True | Some p \<Rightarrow> \<not> is_mode_flag p))"

fun flag_free :: "thread \<Rightarrow> bool" where
  "flag_free (BuildT t) = flag_free_thread t"
| "flag_free InstallT = True"

definition flag_free_window :: "window \<Rightarrow> bool" where
  "flag_free_window w =
     ((case current_script w of None \<Rightarrow> True | Some script \<Rightarrow> \<not> is_mode_flag script)
      \<and> \<not> is_mode_flag (icon_edit w)
      \<and> list_all flag_free (started w))"

subsection \<open>A sample environment\<close>

text \<open>
  A small POSIX-like world for evaluating the program on concrete inputs: two files exist,
  \<open>/w/a.py\<close> and \<open>/w/a.ico\<close>; every path used is absolute already, so \<open>abspath\<close> leaves
  it alone; \<open>dirname\<close> cuts the last component and its slash (47); \<open>join\<close> puts a slash
  between its arguments; every \<open>Popen\<close> call has the given outcome; a line edit keeps
  the first 32767 characters of a text.
\<close>

definition sample_dirname :: "pystr \<Rightarrow> pystr" where
  "sample_dirname p = rev (drop 1 (dropWhile (\<lambda>c. c \<noteq> 47) (rev p)))"

definition sample_env :: "proc_outcome \<Rightarrow> os_env" where
  "sample_env outcome =
     \<lparr>executable = str ''py'',
      argv = [str ''pypacker.py''],
      path_exists = (\<lambda>p. p = str ''/w/a.py'' \<or> p = str ''/w/a.ico''),
      abspath = (\<lambda>p. p),
      dirname = sample_dirname,
      path_join = (\<lambda>a b. a @ [47] @ b),
      popen = (\<lambda>a. outcome),
      pyinstaller_found = True,
      open_raises = (\<lambda>p. None),
      line_edit_text = take 32767\<rparr>"

definition sample_thread :: BuildThread where
  "sample_thread = \<lparr>script_path = str ''/w/a.py'', output_folder = str ''/w/o'', onefile = True,
     noconsole = True, icon_path = Some (str ''/w/a.ico'')\<rparr>"

text \<open>
  The window after start-up and the choice of \<open>/w/a.py\<close> in the file dialog; the same with
  the one-file box then unchecked; and the thread \<open>start_pack\<close> starts from the first.
\<close>

definition sample_selected :: "os_env \<Rightarrow> window" where
  "sample_selected env = handle_all env (init env) [BrowseFile (str ''/w/a.py'')]"

definition sample_unchecked :: "os_env \<Rightarrow> window" where
  "sample_unchecked env =
     handle_all env (init env) [BrowseFile (str ''/w/a.py''), SetOnefile False]"

definition sample_build :: BuildThread where
  "sample_build = \<lparr>script_path = str ''/w/a.py'', output_folder = str ''/w/'' @ OUTPUT_NAME,
     onefile = True, noconsole = False, icon_path = None\<rparr>"

section \<open>Auxiliary facts\<close>

lemma build_cmd_eq:
  "build_cmd env t =
     [executable env, str ''-m'', str ''PyInstaller'', str ''--distpath'', output_folder t,
      str ''--noconfirm'']
     @ [if onefile t then str ''-F'' else str ''-D'']
     @ (if noconsole t then [str ''-w''] else [])
     @ (case icon_path t of
          None \<Rightarrow> []
        | Some p \<Rightarrow> if p \<noteq> [] \<and> path_exists env p then [str ''--icon'', p] else [])
     @ [script_path t]"
  by (simp add: build_cmd_def Let_def split: option.splits)

lemma forward_lines_map: "forward_lines ls = map (\<lambda>line. Log (rstrip line)) ls"
  by (induction ls) simp_all

lemma finished_reports_append:
  "finished_reports (xs @ ys) = finished_reports xs @ finished_reports ys"
  by (induction xs rule: finished_reports.induct) simp_all

lemma finished_reports_forward [simp]: "finished_reports (forward_lines ls) = []"
  by (induction ls) simp_all

lemma finished_reports_mem: "Finished b \<in> set xs \<longleftrightarrow> b \<in> set (finished_reports xs)"
  by (induction xs rule: finished_reports.induct) auto

lemma rstrip_decomp:
  "\<exists>ws. line = rstrip line @ ws \<and> list_all isspace ws"
proof -
  let ?ws = "rev (takeWhile isspace (rev line))"
  have "rev (takeWhile isspace (rev line) @ dropWhile isspace (rev line)) = line"
    by (simp only: takeWhile_dropWhile_id rev_rev_ident)
  then have "line = rstrip line @ ?ws"
    by (simp only: rstrip_def rev_append)
  moreover have "list_all isspace ?ws"
    by (auto simp: list_all_iff dest: set_takeWhileD)
  ultimately show ?thesis by blast
qed

lemma rstrip_last: "rstrip line \<noteq> [] \<Longrightarrow> \<not> isspace (last (rstrip line))"
  by (simp add: rstrip_def last_rev hd_dropWhile)

lemma deliver_all_append:
  "deliver_all env a w (xs @ ys) = deliver_all env a (deliver_all env a w xs) ys"
  by (induction xs arbitrary: w) simp_all

lemma deliver_all_forward:
  "deliver_all env a w (forward_lines ls) = w\<lparr>log_appended := log_appended w @ map rstrip ls\<rparr>"
  by (induction ls arbitrary: w) (simp_all add: log_def)

lemma filter_mode_flag_cmd:
  assumes "\<not> is_mode_flag (executable env)" "\<not> is_mode_flag (output_folder t)"
    "\<not> is_mode_flag (script_path t)" "\<forall>p. icon_path t = Some p \<longrightarrow> \<not> is_mode_flag p"
  shows "filter is_mode_flag (build_cmd env t) = [if onefile t then str ''-F'' else str ''-D'']"
  using assms
  by (cases "icon_path t") (simp_all add: build_cmd_eq is_mode_flag_def str_def)

lemma endswith_nonempty: "endswith p (str ''.py'') \<Longrightarrow> p \<noteq> []"
  by (auto simp: endswith_def str_def)

lemma on_file_dropped_accepts:
  "path_exists env p \<or> endswith p (str ''.py'') \<Longrightarrow>
   on_file_dropped env w p =
     w\<lparr>path_edit := line_edit_text env p, current_script := Some p, pack_btn := True,
       log_appended := log_appended w @ [MSG_SELECTED @ p]\<rparr>"
  by (simp add: on_file_dropped_def log_def)

lemma drop_urls_find:
  "drop_urls env w ps =
     (case find (\<lambda>p. endswith p (str ''.py'')) ps of
        None \<Rightarrow> w
      | Some p \<Rightarrow> on_file_dropped env w p)"
  by (induction ps) simp_all

lemma start_pack_started:
  assumes "started (start_pack env w) = started w @ [BuildT t]"
  shows "\<exists>script. current_script w = Some script \<and> script \<noteq> [] \<and> pyinstaller_available w
     \<and> path_exists env script
     \<and> t = \<lparr>script_path = script,
            output_folder = path_join env (dirname env (abspath env script)) OUTPUT_NAME,
            onefile = onefile_check w, noconsole = noconsole_check w,
            icon_path = (if icon_edit w \<noteq> [] then Some (icon_edit w) else None)\<rparr>"
proof (cases "current_script w")
  case None
  with assms show ?thesis by (simp add: start_pack_def)
next
  case (Some script)
  with assms show ?thesis
    by (simp add: start_pack_def Let_def split: if_splits)
qed

lemma sample_selected_eq:
  "sample_selected (sample_env outcome) =
     (setup_ui (sample_env outcome))\<lparr>path_edit := str ''/w/a.py'',
        current_script := Some (str ''/w/a.py''), pack_btn := True,
        log_appended := [MSG_SELECTED @ str ''/w/a.py'']\<rparr>"
  by (simp add: sample_selected_def init_def handle_args_def browse_file_def
      on_file_dropped_def log_def sample_env_def setup_ui_def str_def)

lemma sample_start_pack:
  "start_pack (sample_env outcome) (sample_selected (sample_env outcome)) =
     (sample_selected (sample_env outcome))\<lparr>log_appended := [], pack_btn := False,
        progress_visible := True, progress_range := (0, 0), build_thread := Some sample_build,
        started := [BuildT sample_build]\<rparr>"
  unfolding sample_selected_eq
  by (simp add: start_pack_def setup_ui_def sample_env_def sample_build_def
      sample_dirname_def Let_def str_def)

lemma run_failed:
  assumes "popen env (popen_call env t) = Exited ls returncode" "returncode \<noteq> 0"
  shows "run env t =
     [Log (MSG_RUNNING @ join_str (str '' '') (build_cmd env t)), Log dashes]
     @ forward_lines ls @ [Log dashes, Log MSG_PACK_FAILED, Finished False]"
  using assms by (simp add: run_def)

lemma sample_unchecked_eq:
  "sample_unchecked (sample_env outcome) =
     (setup_ui (sample_env outcome))\<lparr>path_edit := str ''/w/a.py'',
        current_script := Some (str ''/w/a.py''), pack_btn := True,
        log_appended := [MSG_SELECTED @ str ''/w/a.py''], onefile_check := False\<rparr>"
  by (simp add: sample_unchecked_def init_def handle_args_def browse_file_def
      on_file_dropped_def log_def sample_env_def setup_ui_def str_def)

lemma sample_unchecked_start_pack:
  "started (start_pack (sample_env outcome) (sample_unchecked (sample_env outcome)))
     = started (sample_unchecked (sample_env outcome))
       @ [BuildT (sample_build\<lparr>onefile := False\<rparr>)]"
  unfolding sample_unchecked_eq
  by (simp add: start_pack_def setup_ui_def sample_env_def sample_build_def
      sample_dirname_def Let_def str_def)

lemma started_on_file_dropped [simp]: "started (on_file_dropped env w p) = started w"
  by (simp add: on_file_dropped_def log_def)

lemma started_drop_urls [simp]: "started (drop_urls env w ps) = started w"
  by (induction ps) simp_all

lemma started_open_folder [simp]: "started (open_folder env w p) = started w"
  by (simp add: open_folder_def log_def split: option.splits)

lemma started_on_pack_finished [simp]: "started (on_pack_finished env a w b) = started w"
  by (simp add: on_pack_finished_def Let_def split: option.splits)

lemma started_deliver [simp]: "started (deliver env a w s) = started w"
  by (cases s) (simp_all add: log_def)

lemma started_install_task [simp]: "started (install_task w r) = started w"
  by (simp add: install_task_def Let_def log_def split: pip_outcome.splits)

lemma started_start_pack:
  "started (start_pack env w) = started w \<or> (\<exists>t. started (start_pack env w) = started w @ [BuildT t])"
  by (simp add: start_pack_def Let_def split: option.splits)

lemma started_install_pyinstaller:
  "started (install_pyinstaller w) = started w @ [InstallT]"
  by (simp add: install_pyinstaller_def log_def)

lemma started_init:
  "started (init env) =
     (if 1 < length (argv env)
         \<and> endswith (strip_chars [39] (strip_chars [34] (argv env ! 1))) (str ''.py'')
         \<and> path_exists env (strip_chars [39] (strip_chars [34] (argv env ! 1)))
         \<and> pyinstaller_found env
      then [BuildT \<lparr>script_path = strip_chars [39] (strip_chars [34] (argv env ! 1)),
              output_folder = path_join env (dirname env (abspath env
                 (strip_chars [39] (strip_chars [34] (argv env ! 1))))) OUTPUT_NAME,
              onefile = True, noconsole = False, icon_path = None\<rparr>]
      else [])"
proof (cases "endswith (strip_chars [39] (strip_chars [34] (argv env ! 1))) (str ''.py'')")
  case True
  then have "strip_chars [39] (strip_chars [34] (argv env ! 1)) \<noteq> []"
    by (rule endswith_nonempty)
  with True show ?thesis
    by (simp add: init_def handle_args_def Let_def start_pack_def setup_ui_def)
next
  case False
  then show ?thesis
    by (simp add: init_def handle_args_def Let_def setup_ui_def)
qed

lemma sample_install_then_pack_started:
  "started (handle_all ((sample_env outcome)\<lparr>pyinstaller_found := False\<rparr>)
       (init ((sample_env outcome)\<lparr>pyinstaller_found := False\<rparr>))
       [ClickInstall, InstallEnds (PipExited 0), BrowseFile (str ''/w/a.py''), ClickPack])
     = [InstallT, BuildT sample_build]"
  by (simp add: init_def handle_args_def setup_ui_def
      sample_env_def install_pyinstaller_def install_task_def browse_file_def
      on_file_dropped_def start_pack_def log_def sample_build_def sample_dirname_def
      Let_def str_def)

lemma one_mode_flag_cmd:
  assumes "\<not> is_mode_flag (executable env)" "\<not> is_mode_flag (output_folder t)"
    "\<not> is_mode_flag (script_path t)" "\<forall>p. icon_path t = Some p \<longrightarrow> \<not> is_mode_flag p"
  shows "filter is_mode_flag (args (popen_call env t)) = [if onefile t then str ''-F'' else str ''-D'']
    \<and> (str ''-F'' \<in> set (args (popen_call env t)) \<longleftrightarrow> onefile t)
    \<and> (str ''-D'' \<in> set (args (popen_call env t)) \<longleftrightarrow> \<not> onefile t)"
proof -
  have f: "filter is_mode_flag (args (popen_call env t))
      = [if onefile t then str ''-F'' else str ''-D'']"
    using filter_mode_flag_cmd [OF assms] by (simp add: popen_call_def Let_def)
  have "str ''-F'' \<in> set (args (popen_call env t))
      \<longleftrightarrow> str ''-F'' \<in> set (filter is_mode_flag (args (popen_call env t)))"
    by (simp add: is_mode_flag_def)
  moreover have "str ''-D'' \<in> set (args (popen_call env t))
      \<longleftrightarrow> str ''-D'' \<in> set (filter is_mode_flag (args (popen_call env t)))"
    by (simp add: is_mode_flag_def)
  ultimately show ?thesis
    unfolding f by (simp add: str_def)
qed

lemma is_mode_flag_length: "is_mode_flag a \<Longrightarrow> length a = 2"
  by (auto simp: is_mode_flag_def str_def)

lemma py_not_mode_flag: "endswith p (str ''.py'') \<Longrightarrow> \<not> is_mode_flag p"
  by (auto simp: endswith_def str_def dest!: is_mode_flag_length)

lemma output_not_mode_flag: "endswith p OUTPUT_NAME \<Longrightarrow> \<not> is_mode_flag p"
  by (auto simp: endswith_def OUTPUT_NAME_def is_mode_flag_def str_def)

lemma line_edit_not_mode_flag:
  assumes "\<forall>s. line_edit_text env s = s \<or> 2 < length (line_edit_text env s)"
    and "\<not> is_mode_flag p"
  shows "\<not> is_mode_flag (line_edit_text env p)"
proof
  assume f: "is_mode_flag (line_edit_text env p)"
  then have "length (line_edit_text env p) = 2"
    by (rule is_mode_flag_length)
  with assms(1) have "line_edit_text env p = p"
    by (metis less_irrefl)
  with f assms(2) show False by simp
qed

lemma flag_free_on_file_dropped:
  "flag_free_window w \<Longrightarrow> \<not> is_mode_flag p \<Longrightarrow> flag_free_window (on_file_dropped env w p)"
  by (simp add: flag_free_window_def on_file_dropped_def log_def)

lemma flag_free_drop_urls:
  "flag_free_window w \<Longrightarrow> flag_free_window (drop_urls env w ps)"
  by (induction ps) (simp_all add: flag_free_on_file_dropped py_not_mode_flag)

lemma flag_free_start_pack:
  assumes "\<forall>d. endswith (path_join env d OUTPUT_NAME) OUTPUT_NAME"
    and "flag_free_window w"
  shows "flag_free_window (start_pack env w)"
proof -
  have "\<not> is_mode_flag (path_join env d OUTPUT_NAME)" for d
    using assms(1) by (simp add: output_not_mode_flag)
  with assms(2) show ?thesis
    by (auto simp: flag_free_window_def flag_free_thread_def start_pack_def Let_def
        split: option.splits)
qed

lemma flag_free_deliver:
  "flag_free_window w \<Longrightarrow> flag_free_window (deliver env a w s)"
  by (cases s)
     (auto simp: flag_free_window_def log_def on_pack_finished_def open_folder_def Let_def
        split: option.splits)

lemma flag_free_install_task:
  "flag_free_window w \<Longrightarrow> flag_free_window (install_task w r)"
  by (simp add: flag_free_window_def install_task_def log_def Let_def
      split: pip_outcome.splits)

lemma flag_free_handle:
  assumes "\<forall>d. endswith (path_join env d OUTPUT_NAME) OUTPUT_NAME"
    and "\<forall>s. line_edit_text env s = s \<or> 2 < length (line_edit_text env s)"
    and "from_dialog ev"
    and "flag_free_window w"
  shows "flag_free_window (handle env w ev)"
proof (cases ev)
  case (Drop m)
  with assms(4) show ?thesis
    by (simp add: dropEvent_def flag_free_drop_urls)
next
  case (BrowseFile p)
  with assms(3,4) show ?thesis
    by (simp add: browse_file_def flag_free_on_file_dropped)
next
  case (BrowseIcon p)
  with assms(3) have "\<not> is_mode_flag (line_edit_text env p)"
    using line_edit_not_mode_flag [OF assms(2)] by simp
  with BrowseIcon assms(4) show ?thesis
    by (simp add: browse_icon_def flag_free_window_def)
next
  case (SetOnefile b)
  with assms(4) show ?thesis by (simp add: flag_free_window_def)
next
  case (SetNoconsole b)
  with assms(4) show ?thesis by (simp add: flag_free_window_def)
next
  case ClickPack
  with assms(4) show ?thesis
    by (simp add: flag_free_start_pack [OF assms(1)])
next
  case ClickInstall
  with assms(4) show ?thesis
    by (simp add: flag_free_window_def install_pyinstaller_def log_def)
next
  case (FromBuild sg a)
  with assms(4) show ?thesis by (simp add: flag_free_deliver)
next
  case (InstallEnds r)
  with assms(4) show ?thesis by (simp add: flag_free_install_task)
qed

lemma flag_free_handle_all:
  assumes "\<forall>d. endswith (path_join env d OUTPUT_NAME) OUTPUT_NAME"
    and "\<forall>s. line_edit_text env s = s \<or> 2 < length (line_edit_text env s)"
  shows "list_all from_dialog evs \<Longrightarrow> flag_free_window w
    \<Longrightarrow> flag_free_window (handle_all env w evs)"
proof (induction evs arbitrary: w)
  case Nil
  then show ?case by simp
next
  case (Cons e es)
  from Cons.prems have "flag_free_window (handle env w e)"
    by (simp add: flag_free_handle [OF assms])
  with Cons show ?case by simp
qed

lemma flag_free_init:
  assumes "\<forall>d. endswith (path_join env d OUTPUT_NAME) OUTPUT_NAME"
  shows "flag_free_window (init env)"
proof -
  have s: "flag_free_window (setup_ui env)"
    by (simp add: flag_free_window_def setup_ui_def is_mode_flag_def str_def)
  show ?thesis
  proof (cases "1 < length (argv env)
      \<and> endswith (strip_chars [39] (strip_chars [34] (argv env ! 1))) (str ''.py'')
      \<and> path_exists env (strip_chars [39] (strip_chars [34] (argv env ! 1)))")
    case True
    then have "\<not> is_mode_flag (strip_chars [39] (strip_chars [34] (argv env ! 1)))"
      by (simp add: py_not_mode_flag)
    with s have "flag_free_window ((setup_ui env)\<lparr>path_edit :=
          line_edit_text env (strip_chars [39] (strip_chars [34] (argv env ! 1))),
        current_script := Some (strip_chars [39] (strip_chars [34] (argv env ! 1))),
        pack_btn := True\<rparr>)"
      by (simp add: flag_free_window_def)
    then have "flag_free_window (start_pack env ((setup_ui env)\<lparr>path_edit :=
          line_edit_text env (strip_chars [39] (strip_chars [34] (argv env ! 1))),
        current_script := Some (strip_chars [39] (strip_chars [34] (argv env ! 1))),
        pack_btn := True\<rparr>))"
      by (rule flag_free_start_pack [OF assms])
    with True show ?thesis
      by (simp add: init_def handle_args_def Let_def)
  next
    case False
    with s show ?thesis
      by (auto simp: init_def handle_args_def Let_def)
  qed
qed

lemma start_pack_passes:
  assumes "passes_checks env w"
  shows "\<exists>script. current_script w = Some script
     \<and> start_pack env w =
         w\<lparr>log_appended := [], pack_btn := False, progress_visible := True,
           progress_range := (0, 0),
           build_thread := Some \<lparr>script_path = script,
              output_folder = path_join env (dirname env (abspath env script)) OUTPUT_NAME,
              onefile = onefile_check w, noconsole = noconsole_check w,
              icon_path = (if icon_edit w \<noteq> [] then Some (icon_edit w) else None)\<rparr>,
           started := started w @ [BuildT \<lparr>script_path = script,
              output_folder = path_join env (dirname env (abspath env script)) OUTPUT_NAME,
              onefile = onefile_check w, noconsole = noconsole_check w,
              icon_path = (if icon_edit w \<noteq> [] then Some (icon_edit w) else None)\<rparr>]\<rparr>"
  using assms
  by (cases "current_script w") (simp_all add: passes_checks_def start_pack_def Let_def)

lemma start_pack_fails:
  assumes "\<not> passes_checks env w"
  shows "started (start_pack env w) = started w"
  using assms
  by (cases "current_script w") (auto simp: passes_checks_def start_pack_def Let_def)

lemma started_handle_other:
  "ev \<noteq> ClickPack \<Longrightarrow> ev \<noteq> ClickInstall \<Longrightarrow> started (handle env w ev) = started w"
  by (cases ev) (simp_all add: dropEvent_def browse_file_def browse_icon_def)

section \<open>The claims\<close>

subsection \<open>C1\<close>

text \<open>
  Claim C1. For every build configuration, the command line \<open>run\<close> passes to \<open>Popen\<close> is:
  the Python executable, \<open>-m\<close>, \<open>PyInstaller\<close>, \<open>--distpath\<close>, the output folder,
  \<open>--noconfirm\<close>; then \<open>-F\<close> if \<open>onefile\<close> is set and \<open>-D\<close> otherwise; then \<open>-w\<close> if
  \<open>noconsole\<close> is set; then \<open>--icon\<close> and the icon path if an icon path was given (neither
  \<open>None\<close> nor empty) and the file exists; and the script path as the last element.
\<close>

theorem run_builds_command_line:
  "args (popen_call env t) =
     [executable env, str ''-m'', str ''PyInstaller'', str ''--distpath'', output_folder t,
      str ''--noconfirm'']
     @ [if onefile t then str ''-F'' else str ''-D'']
     @ (if noconsole t then [str ''-w''] else [])
     @ (case icon_path t of
          None \<Rightarrow> []
        | Some p \<Rightarrow> if p \<noteq> [] \<and> path_exists env p then [str ''--icon'', p] else [])
     @ [script_path t]
   \<and> last (args (popen_call env t)) = script_path t"
  by (simp add: popen_call_def Let_def build_cmd_eq)

theorem run_builds_command_line_witness:
  "args (popen_call (sample_env (Exited [] 0)) sample_thread) =
     [str ''py'', str ''-m'', str ''PyInstaller'', str ''--distpath'', str ''/w/o'',
      str ''--noconfirm'', str ''-F'', str ''-w'', str ''--icon'', str ''/w/a.ico'',
      str ''/w/a.py'']
   \<and> last (args (popen_call (sample_env (Exited [] 0)) sample_thread)) = str ''/w/a.py''"
  using run_builds_command_line [of "sample_env (Exited [] 0)" sample_thread]
  by (simp add: sample_env_def sample_thread_def str_def)

subsection \<open>C2\<close>

text \<open>
  Claim C2. \<open>run\<close> emits \<open>finished_signal\<close> once when the process ends or an exception is
  raised: with \<open>True\<close> exactly when the process exited with return code zero, with \<open>False\<close>
  for any other return code and when spawning the process or reading its output raised.
  Success is reported if and only if the process exited with return code zero.
\<close>

theorem run_reports_exit_code:
  "finished_reports (run env t) =
     (case popen env (popen_call env t) of
        SpawnRaises e \<Rightarrow> [False]
      | StreamRaises ls e \<Rightarrow> [False]
      | Exited ls returncode \<Rightarrow> [returncode = 0]
      | Hangs ls \<Rightarrow> [])
   \<and> (Finished True \<in> set (run env t) \<longleftrightarrow> (\<exists>ls. popen env (popen_call env t) = Exited ls 0))"
proof -
  have rep: "finished_reports (run env t) =
     (case popen env (popen_call env t) of
        SpawnRaises e \<Rightarrow> [False]
      | StreamRaises ls e \<Rightarrow> [False]
      | Exited ls returncode \<Rightarrow> [returncode = 0]
      | Hangs ls \<Rightarrow> [])"
    by (simp add: run_def finished_reports_append split: proc_outcome.splits)
  have "Finished True \<in> set (run env t) \<longleftrightarrow> True \<in> set (finished_reports (run env t))"
    by (rule finished_reports_mem)
  also have "\<dots> \<longleftrightarrow> (\<exists>ls. popen env (popen_call env t) = Exited ls 0)"
    unfolding rep by (cases "popen env (popen_call env t)") auto
  finally show ?thesis using rep by blast
qed

theorem run_reports_exit_code_witness:
  "finished_reports (run (sample_env (Exited [] 0)) sample_build) = [True]
   \<and> Finished True \<in> set (run (sample_env (Exited [] 0)) sample_build)
   \<and> finished_reports (run (sample_env (Exited [] 2)) sample_build) = [False]
   \<and> finished_reports (run (sample_env (SpawnRaises (str ''no cwd''))) sample_build) = [False]"
  using run_reports_exit_code [of "sample_env (Exited [] 0)" sample_build]
    run_reports_exit_code [of "sample_env (Exited [] 2)" sample_build]
    run_reports_exit_code [of "sample_env (SpawnRaises (str ''no cwd''))" sample_build]
  by (simp add: sample_env_def)

subsection \<open>C3\<close>

text \<open>
  Claim C3, as amended. For every build \<open>start_pack\<close> starts, the thread takes the state of
  the two check boxes unchanged, and the command line after \<open>--noconfirm\<close> is: \<open>-F\<close> when
  the one-file box is checked and \<open>-D\<close> when it is not; then \<open>-w\<close> when the no-console box
  is checked and nothing when it is not; then the icon arguments, if any, and the script.
\<close>

theorem checkboxes_choose_flags:
  assumes "started (start_pack env w) = started w @ [BuildT t]"
  shows "onefile t = onefile_check w \<and> noconsole t = noconsole_check w
    \<and> drop 6 (args (popen_call env t)) =
        [if onefile_check w then str ''-F'' else str ''-D'']
        @ (if noconsole_check w then [str ''-w''] else [])
        @ (case icon_path t of
             None \<Rightarrow> []
           | Some p \<Rightarrow> if p \<noteq> [] \<and> path_exists env p then [str ''--icon'', p] else [])
        @ [script_path t]"
proof -
  from start_pack_started [OF assms] obtain script where
    "t = \<lparr>script_path = script,
          output_folder = path_join env (dirname env (abspath env script)) OUTPUT_NAME,
          onefile = onefile_check w, noconsole = noconsole_check w,
          icon_path = (if icon_edit w \<noteq> [] then Some (icon_edit w) else None)\<rparr>"
    by blast
  then have "onefile t = onefile_check w" "noconsole t = noconsole_check w"
    by simp_all
  then show ?thesis
    by (simp add: popen_call_def Let_def build_cmd_eq)
qed

theorem checkboxes_choose_flags_witness:
  "started (start_pack (sample_env (Exited [] 0)) (sample_unchecked (sample_env (Exited [] 0))))
     = started (sample_unchecked (sample_env (Exited [] 0)))
       @ [BuildT (sample_build\<lparr>onefile := False\<rparr>)]
   \<and> drop 6 (args (popen_call (sample_env (Exited [] 0)) (sample_build\<lparr>onefile := False\<rparr>)))
       = [str ''-D'', str ''/w/a.py'']"
proof -
  have w: "onefile_check (sample_unchecked (sample_env (Exited [] 0))) = False"
    "noconsole_check (sample_unchecked (sample_env (Exited [] 0))) = False"
    unfolding sample_unchecked_eq by (simp_all add: setup_ui_def)
  have t: "icon_path (sample_build\<lparr>onefile := False\<rparr>) = None"
    "script_path (sample_build\<lparr>onefile := False\<rparr>) = str ''/w/a.py''"
    by (simp_all add: sample_build_def)
  show ?thesis
    using checkboxes_choose_flags [OF sample_unchecked_start_pack, of "Exited [] 0"]
      sample_unchecked_start_pack [of "Exited [] 0"]
    unfolding w t by simp
qed

text \<open>
  The claim as first stated has the unchecked one-file box add nothing. With the box
  unchecked the command line carries \<open>-D\<close> in the place of \<open>-F\<close>; it is not the command
  line without a mode flag.
\<close>

theorem unchecked_onefile_adds_flag_counterexample:
  "\<not> onefile_check (sample_unchecked (sample_env (Exited [] 0)))
   \<and> started (start_pack (sample_env (Exited [] 0)) (sample_unchecked (sample_env (Exited [] 0))))
     = [BuildT (sample_build\<lparr>onefile := False\<rparr>)]
   \<and> args (popen_call (sample_env (Exited [] 0)) (sample_build\<lparr>onefile := False\<rparr>))
     = [str ''py'', str ''-m'', str ''PyInstaller'', str ''--distpath'', str ''/w/'' @ OUTPUT_NAME,
        str ''--noconfirm'', str ''-D'', str ''/w/a.py'']
   \<and> args (popen_call (sample_env (Exited [] 0)) (sample_build\<lparr>onefile := False\<rparr>))
     \<noteq> [str ''py'', str ''-m'', str ''PyInstaller'', str ''--distpath'', str ''/w/'' @ OUTPUT_NAME,
        str ''--noconfirm'', str ''/w/a.py'']"
proof -
  have a: "\<not> onefile_check (sample_unchecked (sample_env (Exited [] 0)))"
    and b: "started (sample_unchecked (sample_env (Exited [] 0))) = []"
    unfolding sample_unchecked_eq by (simp_all add: setup_ui_def)
  have c: "args (popen_call (sample_env (Exited [] 0)) (sample_build\<lparr>onefile := False\<rparr>))
     = [str ''py'', str ''-m'', str ''PyInstaller'', str ''--distpath'', str ''/w/'' @ OUTPUT_NAME,
        str ''--noconfirm'', str ''-D'', str ''/w/a.py'']"
    by (simp add: popen_call_def Let_def build_cmd_eq sample_env_def sample_build_def)
  have d: "started (start_pack (sample_env (Exited [] 0))
       (sample_unchecked (sample_env (Exited [] 0))))
     = [BuildT (sample_build\<lparr>onefile := False\<rparr>)]"
    using sample_unchecked_start_pack [of "Exited [] 0"] unfolding b by simp
  have e: "args (popen_call (sample_env (Exited [] 0)) (sample_build\<lparr>onefile := False\<rparr>))
     \<noteq> [str ''py'', str ''-m'', str ''PyInstaller'', str ''--distpath'', str ''/w/'' @ OUTPUT_NAME,
        str ''--noconfirm'', str ''/w/a.py'']"
    unfolding c by simp
  from a d c e show ?thesis by blast
qed

subsection \<open>C4\<close>

text \<open>
  Claim C4, as amended. For every build whose process exits with a return code other than
  zero, the failure is reported through the log view only: after the header and the
  forwarded lines, the line of dashes and the failure message are handed to the log view;
  \<open>finished_signal\<close> carries \<open>False\<close>; \<open>on_pack_finished\<close> resets the progress bar and
  enables the pack button again, and shows no message box (the list of boxes shown is
  unchanged).
\<close>

theorem failed_build_reported_in_log_only:
  assumes "popen env (popen_call env t) = Exited ls returncode" "returncode \<noteq> 0"
  shows "deliver_all env answer_yes w (run env t) =
      w\<lparr>log_appended := log_appended w
           @ [MSG_RUNNING @ join_str (str '' '') (args (popen_call env t)), dashes]
           @ map rstrip ls @ [dashes, MSG_PACK_FAILED],
        progress_range := (0, 100), progress_visible := False, pack_btn := True\<rparr>
    \<and> dialogs (deliver_all env answer_yes w (run env t)) = dialogs w
    \<and> finished_reports (run env t) = [False]"
proof -
  have "deliver_all env answer_yes w (run env t) =
      w\<lparr>log_appended := log_appended w
           @ [MSG_RUNNING @ join_str (str '' '') (build_cmd env t), dashes]
           @ map rstrip ls @ [dashes, MSG_PACK_FAILED],
        progress_range := (0, 100), progress_visible := False, pack_btn := True\<rparr>"
    unfolding run_failed [OF assms]
    by (simp add: deliver_all_append deliver_all_forward log_def on_pack_finished_def)
  moreover have "args (popen_call env t) = build_cmd env t"
    by (simp add: popen_call_def Let_def)
  moreover have "finished_reports (run env t) = [False]"
    unfolding run_failed [OF assms] by (simp add: finished_reports_append)
  ultimately show ?thesis by simp
qed

theorem failed_build_reported_in_log_only_witness:
  "dialogs (deliver_all (sample_env (Exited [str ''boom'' @ [10]] 1)) True
      (start_pack (sample_env (Exited [str ''boom'' @ [10]] 1))
         (sample_selected (sample_env (Exited [str ''boom'' @ [10]] 1))))
      (run (sample_env (Exited [str ''boom'' @ [10]] 1)) sample_build)) = []
   \<and> log_appended (deliver_all (sample_env (Exited [str ''boom'' @ [10]] 1)) True
      (start_pack (sample_env (Exited [str ''boom'' @ [10]] 1))
         (sample_selected (sample_env (Exited [str ''boom'' @ [10]] 1))))
      (run (sample_env (Exited [str ''boom'' @ [10]] 1)) sample_build))
     = [MSG_RUNNING @ str ''py -m PyInstaller --distpath /w/'' @ OUTPUT_NAME
          @ str '' --noconfirm -F /w/a.py'',
        dashes, str ''boom'', dashes, MSG_PACK_FAILED]"
proof -
  let ?E = "sample_env (Exited [str ''boom'' @ [10]] 1)"
  let ?W = "start_pack ?E (sample_selected ?E)"
  have o: "popen ?E (popen_call ?E sample_build) = Exited [str ''boom'' @ [10]] 1"
    by (simp add: sample_env_def)
  have ne: "(1::int) \<noteq> 0"
    by simp
  have c: "args (popen_call ?E sample_build)
      = [str ''py'', str ''-m'', str ''PyInstaller'', str ''--distpath'',
         str ''/w/'' @ OUTPUT_NAME, str ''--noconfirm'', str ''-F'', str ''/w/a.py'']"
    by (simp add: popen_call_def Let_def build_cmd_eq sample_env_def sample_build_def)
  have r: "rstrip (str ''boom'' @ [10]) = str ''boom''"
    by (simp add: rstrip_def isspace_def str_def)
  have w: "log_appended ?W = []" "dialogs ?W = []"
    unfolding sample_start_pack by (simp_all add: sample_selected_eq setup_ui_def)
  note t = failed_build_reported_in_log_only [OF o ne, of True ?W]
  from t have e: "deliver_all ?E True ?W (run ?E sample_build) =
      ?W\<lparr>log_appended := log_appended ?W
           @ [MSG_RUNNING @ join_str (str '' '') (args (popen_call ?E sample_build)), dashes]
           @ map rstrip [str ''boom'' @ [10]] @ [dashes, MSG_PACK_FAILED],
        progress_range := (0, 100), progress_visible := False, pack_btn := True\<rparr>"
    by (rule conjunct1)
  have "log_appended (deliver_all ?E True ?W (run ?E sample_build)) =
      log_appended ?W
           @ [MSG_RUNNING @ join_str (str '' '') (args (popen_call ?E sample_build)), dashes]
           @ map rstrip [str ''boom'' @ [10]] @ [dashes, MSG_PACK_FAILED]"
    unfolding e by simp
  also have "\<dots> = [MSG_RUNNING @ str ''py -m PyInstaller --distpath /w/'' @ OUTPUT_NAME
          @ str '' --noconfirm -F /w/a.py'',
        dashes, str ''boom'', dashes, MSG_PACK_FAILED]"
    unfolding c w list.map r by (simp add: str_def)
  finally have l: "log_appended (deliver_all ?E True ?W (run ?E sample_build)) =
      [MSG_RUNNING @ str ''py -m PyInstaller --distpath /w/'' @ OUTPUT_NAME
          @ str '' --noconfirm -F /w/a.py'',
        dashes, str ''boom'', dashes, MSG_PACK_FAILED]" .
  from t have "dialogs (deliver_all ?E True ?W (run ?E sample_build)) = dialogs ?W"
    by blast
  then have d: "dialogs (deliver_all ?E True ?W (run ?E sample_build)) = []"
    unfolding w .
  from d l show ?thesis by (rule conjI)
qed

text \<open>
  The claim as first stated asks for a message box. A build started from the window whose
  process writes one line and exits with return code 1 leaves the list of message boxes
  empty after all its signals are delivered.
\<close>

theorem failed_build_no_message_box_counterexample:
  "started (start_pack (sample_env (Exited [str ''boom'' @ [10]] 1))
       (sample_selected (sample_env (Exited [str ''boom'' @ [10]] 1)))) = [BuildT sample_build]
   \<and> popen (sample_env (Exited [str ''boom'' @ [10]] 1))
       (popen_call (sample_env (Exited [str ''boom'' @ [10]] 1)) sample_build)
      = Exited [str ''boom'' @ [10]] 1
   \<and> dialogs (deliver_all (sample_env (Exited [str ''boom'' @ [10]] 1)) True
      (start_pack (sample_env (Exited [str ''boom'' @ [10]] 1))
         (sample_selected (sample_env (Exited [str ''boom'' @ [10]] 1))))
      (run (sample_env (Exited [str ''boom'' @ [10]] 1)) sample_build)) = []"
proof -
  have o: "popen (sample_env (Exited [str ''boom'' @ [10]] 1))
      (popen_call (sample_env (Exited [str ''boom'' @ [10]] 1)) sample_build)
      = Exited [str ''boom'' @ [10]] 1"
    by (simp add: sample_env_def)
  have "run (sample_env (Exited [str ''boom'' @ [10]] 1)) sample_build =
     [Log (MSG_RUNNING @ join_str (str '' '')
        (build_cmd (sample_env (Exited [str ''boom'' @ [10]] 1)) sample_build)), Log dashes]
     @ forward_lines [str ''boom'' @ [10]] @ [Log dashes, Log MSG_PACK_FAILED, Finished False]"
    by (rule run_failed [OF o]) simp
  then have "dialogs (deliver_all (sample_env (Exited [str ''boom'' @ [10]] 1)) True
      (start_pack (sample_env (Exited [str ''boom'' @ [10]] 1))
         (sample_selected (sample_env (Exited [str ''boom'' @ [10]] 1))))
      (run (sample_env (Exited [str ''boom'' @ [10]] 1)) sample_build)) = []"
    unfolding sample_start_pack
    by (simp add: sample_selected_eq setup_ui_def log_def on_pack_finished_def)
  moreover have "started (start_pack (sample_env (Exited [str ''boom'' @ [10]] 1))
       (sample_selected (sample_env (Exited [str ''boom'' @ [10]] 1)))) = [BuildT sample_build]"
    unfolding sample_start_pack by simp
  ultimately show ?thesis
    using o by blast
qed

subsection \<open>C5\<close>

text \<open>
  Claim C5. The process is spawned with its standard output piped and its standard error
  merged into it, in text mode. \<open>run\<close> emits, after its two header lines, one \<open>log_signal\<close>
  per line of output, in the order of the lines and before anything that follows the end
  of the output (also when the process never ends or reading fails later); delivered to the
  window, these signals hand the lines to the log view, one call of its \<open>append\<close> per
  line, in that order. Each forwarded line is the line without its trailing whitespace: what
  is cut off is whitespace only, and what is left does not end in whitespace.
\<close>

theorem run_streams_lines_to_log:
  "stdout (popen_call env t) = PIPE \<and> stderr (popen_call env t) = STDOUT
   \<and> text_mode (popen_call env t)
   \<and> run env t =
       [Log (MSG_RUNNING @ join_str (str '' '') (args (popen_call env t))), Log dashes]
       @ map (\<lambda>line. Log (rstrip line)) (lines_of (popen env (popen_call env t)))
       @ (case popen env (popen_call env t) of
            SpawnRaises e \<Rightarrow> [Log (MSG_RUN_EXCEPTION @ e), Finished False]
          | StreamRaises ls e \<Rightarrow> [Log (MSG_RUN_EXCEPTION @ e), Finished False]
          | Exited ls returncode \<Rightarrow>
              [Log dashes, Log (if returncode = 0 then MSG_PACK_OK else MSG_PACK_FAILED),
               Finished (returncode = 0)]
          | Hangs ls \<Rightarrow> [])
   \<and> log_appended (deliver_all env a w (map (\<lambda>line. Log (rstrip line)) ls))
       = log_appended w @ map rstrip ls
   \<and> (\<exists>ws. line = rstrip line @ ws \<and> list_all isspace ws)
   \<and> (rstrip line = [] \<or> \<not> isspace (last (rstrip line)))"
proof -
  have "log_appended (deliver_all env a w (forward_lines ls)) = log_appended w @ map rstrip ls"
    by (simp add: deliver_all_forward)
  then have "log_appended (deliver_all env a w (map (\<lambda>line. Log (rstrip line)) ls))
       = log_appended w @ map rstrip ls"
    by (simp add: forward_lines_map)
  moreover have "run env t =
       [Log (MSG_RUNNING @ join_str (str '' '') (args (popen_call env t))), Log dashes]
       @ map (\<lambda>line. Log (rstrip line)) (lines_of (popen env (popen_call env t)))
       @ (case popen env (popen_call env t) of
            SpawnRaises e \<Rightarrow> [Log (MSG_RUN_EXCEPTION @ e), Finished False]
          | StreamRaises ls e \<Rightarrow> [Log (MSG_RUN_EXCEPTION @ e), Finished False]
          | Exited ls returncode \<Rightarrow>
              [Log dashes, Log (if returncode = 0 then MSG_PACK_OK else MSG_PACK_FAILED),
               Finished (returncode = 0)]
          | Hangs ls \<Rightarrow> [])"
    by (cases "popen env (popen_call env t)")
       (simp_all add: run_def forward_lines_map popen_call_def Let_def)
  moreover have "stdout (popen_call env t) = PIPE" "stderr (popen_call env t) = STDOUT"
    "text_mode (popen_call env t)"
    by (simp_all add: popen_call_def Let_def)
  ultimately show ?thesis
    using rstrip_decomp [of line] rstrip_last [of line] by blast
qed

theorem run_streams_lines_to_log_witness:
  "run (sample_env (Hangs [str ''one '' @ [10], str ''two'' @ [13, 10]])) sample_build =
     [Log (MSG_RUNNING @ join_str (str '' '')
        (args (popen_call (sample_env (Hangs [str ''one '' @ [10], str ''two'' @ [13, 10]]))
           sample_build))),
      Log dashes, Log (str ''one''), Log (str ''two'')]
   \<and> stderr (popen_call (sample_env (Hangs [str ''one '' @ [10], str ''two'' @ [13, 10]]))
        sample_build) = STDOUT"
proof -
  let ?E = "sample_env (Hangs [str ''one '' @ [10], str ''two'' @ [13, 10]])"
  have o: "popen ?E (popen_call ?E sample_build)
      = Hangs [str ''one '' @ [10], str ''two'' @ [13, 10]]"
    by (simp add: sample_env_def)
  have r: "rstrip (str ''one '' @ [10]) = str ''one''" "rstrip (str ''two'' @ [13, 10]) = str ''two''"
    by (simp_all add: rstrip_def isspace_def str_def)
  show ?thesis
    using run_streams_lines_to_log [of ?E sample_build]
    unfolding o by (simp add: r)
qed

subsection \<open>C6\<close>

text \<open>
  Claim C6, as amended. Background threads are started in two places only.
  \<open>install_pyinstaller\<close> starts exactly one install thread each time it is called, that is
  on every click on the enabled, visible install button. \<open>start_pack\<close> starts exactly one
  \<open>BuildThread\<close>, the thread that runs the packaging process for the current script, each
  time its checks pass, and none when a check fails; it is called on a click on the enabled
  pack button and once at start-up when the command line names an existing \<open>.py\<close> file.
  Every other event starts no thread.
\<close>

theorem threads_started_by_pack_and_install_only:
  "started (install_pyinstaller w) = started w @ [InstallT]
   \<and> (passes_checks env w \<longrightarrow>
        (\<exists>t. started (start_pack env w) = started w @ [BuildT t]
           \<and> build_thread (start_pack env w) = Some t
           \<and> current_script w = Some (script_path t)))
   \<and> (\<not> passes_checks env w \<longrightarrow> started (start_pack env w) = started w)
   \<and> started (handle env w ClickPack)
       = (if pack_btn w then started (start_pack env w) else started w)
   \<and> started (handle env w ClickInstall)
       = (if install_btn_enabled w \<and> install_btn_visible w then started w @ [InstallT]
          else started w)
   \<and> (ev \<noteq> ClickPack \<and> ev \<noteq> ClickInstall \<longrightarrow> started (handle env w ev) = started w)
   \<and> started (init env) =
       (if 1 < length (argv env)
           \<and> endswith (strip_chars [39] (strip_chars [34] (argv env ! 1))) (str ''.py'')
           \<and> path_exists env (strip_chars [39] (strip_chars [34] (argv env ! 1)))
           \<and> pyinstaller_found env
        then [BuildT \<lparr>script_path = strip_chars [39] (strip_chars [34] (argv env ! 1)),
                output_folder = path_join env (dirname env (abspath env
                   (strip_chars [39] (strip_chars [34] (argv env ! 1))))) OUTPUT_NAME,
                onefile = True, noconsole = False, icon_path = None\<rparr>]
        else [])"
proof -
  have a: "started (install_pyinstaller w) = started w @ [InstallT]"
    by (rule started_install_pyinstaller)
  have b: "\<exists>t. started (start_pack env w) = started w @ [BuildT t]
           \<and> build_thread (start_pack env w) = Some t
           \<and> current_script w = Some (script_path t)" if "passes_checks env w"
  proof -
    from start_pack_passes [OF that] obtain script where
      c: "current_script w = Some script" and
      e: "start_pack env w =
         w\<lparr>log_appended := [], pack_btn := False, progress_visible := True,
           progress_range := (0, 0),
           build_thread := Some \<lparr>script_path = script,
              output_folder = path_join env (dirname env (abspath env script)) OUTPUT_NAME,
              onefile = onefile_check w, noconsole = noconsole_check w,
              icon_path = (if icon_edit w \<noteq> [] then Some (icon_edit w) else None)\<rparr>,
           started := started w @ [BuildT \<lparr>script_path = script,
              output_folder = path_join env (dirname env (abspath env script)) OUTPUT_NAME,
              onefile = onefile_check w, noconsole = noconsole_check w,
              icon_path = (if icon_edit w \<noteq> [] then Some (icon_edit w) else None)\<rparr>]\<rparr>"
      by blast
    show ?thesis
      unfolding e using c by simp
  qed
  have c: "started (start_pack env w) = started w" if "\<not> passes_checks env w"
    using that by (rule start_pack_fails)
  have d: "started (handle env w ClickPack)
       = (if pack_btn w then started (start_pack env w) else started w)"
    by simp
  have e: "started (handle env w ClickInstall)
       = (if install_btn_enabled w \<and> install_btn_visible w then started w @ [InstallT]
          else started w)"
    by (simp add: started_install_pyinstaller)
  have f: "started (handle env w ev) = started w" if "ev \<noteq> ClickPack \<and> ev \<noteq> ClickInstall"
    using that by (simp add: started_handle_other)
  from a b c d e f started_init [of env] show ?thesis
    by blast
qed

theorem threads_started_by_pack_and_install_only_witness:
  "passes_checks (sample_env (Exited [] 0)) (sample_selected (sample_env (Exited [] 0)))
   \<and> (\<exists>t. started (start_pack (sample_env (Exited [] 0))
              (sample_selected (sample_env (Exited [] 0))))
          = started (sample_selected (sample_env (Exited [] 0))) @ [BuildT t])
   \<and> started (install_pyinstaller (setup_ui (sample_env (Exited [] 0))))
       = started (setup_ui (sample_env (Exited [] 0))) @ [InstallT]
   \<and> started (handle (sample_env (Exited [] 0)) (sample_selected (sample_env (Exited [] 0)))
        (SetNoconsole True)) = started (sample_selected (sample_env (Exited [] 0)))"
proof -
  have p: "passes_checks (sample_env (Exited [] 0)) (sample_selected (sample_env (Exited [] 0)))"
    unfolding sample_selected_eq
    by (simp add: passes_checks_def setup_ui_def sample_env_def str_def)
  have n: "SetNoconsole True \<noteq> ClickPack \<and> SetNoconsole True \<noteq> ClickInstall"
    by simp
  from p n
    threads_started_by_pack_and_install_only [where env = "sample_env (Exited [] 0)"
      and w = "sample_selected (sample_env (Exited [] 0))" and ev = "SetNoconsole True"]
    threads_started_by_pack_and_install_only [where env = "sample_env (Exited [] 0)"
      and w = "setup_ui (sample_env (Exited [] 0))" and ev = "SetNoconsole True"]
  show ?thesis by blast
qed

text \<open>
  The claim as first stated allows one background thread in an execution, the packaging
  one. Started without PyInstaller, the window starts an install thread on a click on the
  install button and, once the installation has ended well and a script is chosen, a
  \<open>BuildThread\<close> on a click on the pack button: two threads, the first of which does not run
  the packaging process.
\<close>

theorem two_threads_started_counterexample:
  "started (handle_all ((sample_env (Exited [] 0))\<lparr>pyinstaller_found := False\<rparr>)
       (init ((sample_env (Exited [] 0))\<lparr>pyinstaller_found := False\<rparr>))
       [ClickInstall, InstallEnds (PipExited 0), BrowseFile (str ''/w/a.py''), ClickPack])
     = [InstallT, BuildT sample_build]
   \<and> \<not> length (started (handle_all ((sample_env (Exited [] 0))\<lparr>pyinstaller_found := False\<rparr>)
       (init ((sample_env (Exited [] 0))\<lparr>pyinstaller_found := False\<rparr>))
       [ClickInstall, InstallEnds (PipExited 0), BrowseFile (str ''/w/a.py''), ClickPack])) \<le> 1"
  unfolding sample_install_then_pack_started by simp

subsection \<open>C7\<close>

text \<open>
  Claim C7. A drop event that carries URLs selects the first URL whose local path ends in
  \<open>.py\<close>, through \<open>on_file_dropped\<close>, skipping the URLs before it that do not; that path
  becomes the current script and the pack button is enabled. With no such URL, or no URLs,
  the window is unchanged. A path chosen in the file dialog goes
  through the same \<open>on_file_dropped\<close>; a cancelled dialog changes nothing.
\<close>

theorem script_selected_by_drop_or_dialog:
  "dropEvent env w ev =
     (if has_urls ev then
        (case find (\<lambda>p. endswith p (str ''.py'')) (urls ev) of
           None \<Rightarrow> w
         | Some p \<Rightarrow> on_file_dropped env w p)
      else w)
   \<and> (has_urls ev \<and> find (\<lambda>p. endswith p (str ''.py'')) (urls ev) = Some p \<longrightarrow>
        current_script (dropEvent env w ev) = Some p \<and> pack_btn (dropEvent env w ev))
   \<and> browse_file env w q = (if q \<noteq> [] then on_file_dropped env w q else w)"
proof -
  have a: "dropEvent env w ev =
     (if has_urls ev then
        (case find (\<lambda>p. endswith p (str ''.py'')) (urls ev) of
           None \<Rightarrow> w
         | Some p \<Rightarrow> on_file_dropped env w p)
      else w)"
    by (simp add: dropEvent_def drop_urls_find)
  have b: "current_script (dropEvent env w ev) = Some p \<and> pack_btn (dropEvent env w ev)"
    if h: "has_urls ev" and f: "find (\<lambda>p. endswith p (str ''.py'')) (urls ev) = Some p"
  proof -
    from f have "endswith p (str ''.py'')"
      by (auto simp: find_Some_iff)
    then have "on_file_dropped env w p =
       w\<lparr>path_edit := line_edit_text env p, current_script := Some p, pack_btn := True,
         log_appended := log_appended w @ [MSG_SELECTED @ p]\<rparr>"
      by (simp add: on_file_dropped_accepts)
    with a h f show ?thesis by simp
  qed
  have c: "browse_file env w q = (if q \<noteq> [] then on_file_dropped env w q else w)"
    by (simp add: browse_file_def)
  from a b c show ?thesis by blast
qed

theorem script_selected_by_drop_or_dialog_witness:
  "current_script (dropEvent (sample_env (Exited [] 0)) (setup_ui (sample_env (Exited [] 0)))
      \<lparr>has_urls = True, urls = [str ''/w/n.txt'', str ''/w/a.py'', str ''/w/b.py'']\<rparr>)
     = Some (str ''/w/a.py'')
   \<and> current_script (browse_file (sample_env (Exited [] 0)) (setup_ui (sample_env (Exited [] 0)))
        (str ''/w/a.py'')) = Some (str ''/w/a.py'')"
  using script_selected_by_drop_or_dialog [of "sample_env (Exited [] 0)"
      "setup_ui (sample_env (Exited [] 0))"
      "\<lparr>has_urls = True, urls = [str ''/w/n.txt'', str ''/w/a.py'', str ''/w/b.py'']\<rparr>"
      "str ''/w/a.py''" "str ''/w/a.py''"]
  by (simp add: endswith_def str_def on_file_dropped_def sample_env_def log_def)

subsection \<open>C8\<close>

text \<open>
  Claim C8. Every command line \<open>run\<close> builds for a thread the program starts contains
  exactly one of the two mode flags: \<open>-F\<close> and not \<open>-D\<close> when \<open>onefile\<close> is set, \<open>-D\<close> and not
  \<open>-F\<close> otherwise. The threads are those of any sequence of events after start-up. The
  world is as the program finds it: \<open>sys.executable\<close> is not a mode flag, \<open>os.path.join\<close>
  of a directory and the output name ends in that name, a line edit returns the text it was
  given or a cut of it longer than two characters, and a file dialog returns an absolute
  path or the empty string.
\<close>

theorem started_builds_have_one_mode_flag:
  assumes "\<not> is_mode_flag (executable env)"
    and "\<forall>d. endswith (path_join env d OUTPUT_NAME) OUTPUT_NAME"
    and "\<forall>s. line_edit_text env s = s \<or> 2 < length (line_edit_text env s)"
    and "list_all from_dialog evs"
    and "BuildT t \<in> set (started (handle_all env (init env) evs))"
  shows "filter is_mode_flag (args (popen_call env t))
      = [if onefile t then str ''-F'' else str ''-D'']
    \<and> (str ''-F'' \<in> set (args (popen_call env t)) \<longleftrightarrow> onefile t)
    \<and> (str ''-D'' \<in> set (args (popen_call env t)) \<longleftrightarrow> \<not> onefile t)"
proof -
  have "flag_free_window (handle_all env (init env) evs)"
    using assms(2-4) by (intro flag_free_handle_all flag_free_init)
  then have "list_all flag_free (started (handle_all env (init env) evs))"
    by (simp add: flag_free_window_def)
  with assms(5) have "flag_free (BuildT t)"
    by (auto simp: list_all_iff)
  then have "\<not> is_mode_flag (script_path t)" "\<not> is_mode_flag (output_folder t)"
    "\<forall>p. icon_path t = Some p \<longrightarrow> \<not> is_mode_flag p"
    by (auto simp: flag_free_thread_def)
  with assms(1) show ?thesis
    by (intro one_mode_flag_cmd)
qed

theorem started_builds_have_one_mode_flag_witness:
  "BuildT sample_build \<in> set (started (handle_all (sample_env (Exited [] 0))
       (init (sample_env (Exited [] 0))) [BrowseFile (str ''/w/a.py''), ClickPack]))
   \<and> filter is_mode_flag (args (popen_call (sample_env (Exited [] 0)) sample_build))
       = [str ''-F'']
   \<and> str ''-F'' \<in> set (args (popen_call (sample_env (Exited [] 0)) sample_build))
   \<and> str ''-D'' \<notin> set (args (popen_call (sample_env (Exited [] 0)) sample_build))"
proof -
  let ?E = "sample_env (Exited [] 0)"
  have e1: "\<not> is_mode_flag (executable ?E)"
    by (simp add: sample_env_def is_mode_flag_def str_def)
  have e2: "\<forall>d. endswith (path_join ?E d OUTPUT_NAME) OUTPUT_NAME"
    by (simp add: sample_env_def endswith_def OUTPUT_NAME_def)
  have e3: "\<forall>s. line_edit_text ?E s = s \<or> 2 < length (line_edit_text ?E s)"
    by (auto simp: sample_env_def)
  have d: "list_all from_dialog [BrowseFile (str ''/w/a.py''), ClickPack]"
    by (simp add: is_mode_flag_def str_def)
  have "handle_all ?E (init ?E) [BrowseFile (str ''/w/a.py''), ClickPack]
      = handle ?E (sample_selected ?E) ClickPack"
    by (simp add: sample_selected_def)
  also have "\<dots> = start_pack ?E (sample_selected ?E)"
    unfolding sample_selected_eq by simp
  finally have "started (handle_all ?E (init ?E) [BrowseFile (str ''/w/a.py''), ClickPack])
      = [BuildT sample_build]"
    unfolding sample_start_pack by simp
  then have m: "BuildT sample_build
      \<in> set (started (handle_all ?E (init ?E) [BrowseFile (str ''/w/a.py''), ClickPack]))"
    by simp
  have o: "onefile sample_build"
    by (simp add: sample_build_def)
  from m started_builds_have_one_mode_flag [OF e1 e2 e3 d m] o show ?thesis
    by simp
qed

subsection \<open>C9\<close>

text \<open>
  Claim C9. For every build \<open>start_pack\<close> starts, the script of the thread is the current
  script of the window, its output folder is \<open>os.path.join\<close> of the directory of the
  absolute path of that script and the fixed name U+8F93 U+51FA, and this folder follows
  \<open>--distpath\<close> on the command line. Nothing else of the window (no field, no check box)
  enters it.
\<close>

theorem start_pack_output_folder:
  assumes "started (start_pack env w) = started w @ [BuildT t]"
  shows "current_script w = Some (script_path t)
    \<and> output_folder t = path_join env (dirname env (abspath env (script_path t))) OUTPUT_NAME
    \<and> take 2 (drop 3 (args (popen_call env t)))
        = [str ''--distpath'',
           path_join env (dirname env (abspath env (script_path t))) OUTPUT_NAME]"
proof -
  from start_pack_started [OF assms] obtain script where
    "current_script w = Some script"
    "t = \<lparr>script_path = script,
          output_folder = path_join env (dirname env (abspath env script)) OUTPUT_NAME,
          onefile = onefile_check w, noconsole = noconsole_check w,
          icon_path = (if icon_edit w \<noteq> [] then Some (icon_edit w) else None)\<rparr>"
    by blast
  then show ?thesis
    by (simp add: popen_call_def Let_def build_cmd_eq)
qed

theorem start_pack_output_folder_witness:
  "started (start_pack (sample_env (Exited [] 0)) (sample_selected (sample_env (Exited [] 0))))
     = started (sample_selected (sample_env (Exited [] 0))) @ [BuildT sample_build]
   \<and> output_folder sample_build = str ''/w/'' @ OUTPUT_NAME
   \<and> take 2 (drop 3 (args (popen_call (sample_env (Exited [] 0)) sample_build)))
       = [str ''--distpath'', str ''/w/'' @ OUTPUT_NAME]"
proof -
  have h: "started (start_pack (sample_env (Exited [] 0))
         (sample_selected (sample_env (Exited [] 0))))
     = started (sample_selected (sample_env (Exited [] 0))) @ [BuildT sample_build]"
    by (simp add: sample_start_pack) (simp add: sample_selected_eq setup_ui_def)
  have "path_join (sample_env (Exited [] 0))
          (dirname (sample_env (Exited [] 0))
             (abspath (sample_env (Exited [] 0)) (script_path sample_build))) OUTPUT_NAME
        = str ''/w/'' @ OUTPUT_NAME"
    by (simp add: sample_env_def sample_build_def sample_dirname_def str_def)
  with h start_pack_output_folder [OF h] show ?thesis by simp
qed

subsection \<open>C10\<close>

text \<open>
  Claim C10, as amended. \<open>on_file_dropped\<close> takes a path as the current script and
  enables the pack button whenever the path exists or ends in \<open>.py\<close>. For a path that ends
  in \<open>.py\<close> and does not exist, \<open>start_pack\<close> then only shows a message box: when
  PyInstaller is available, the critical box saying that the file does not exist; when it
  is not, the warning to install PyInstaller, whose check comes first. In both cases it
  starts no thread and leaves the current script and everything else as they were.
\<close>

theorem missing_script_accepted_then_rejected:
  "(path_exists env q \<or> endswith q (str ''.py'') \<longrightarrow>
      current_script (on_file_dropped env w q) = Some q \<and> pack_btn (on_file_dropped env w q))
   \<and> (\<not> path_exists env p \<and> endswith p (str ''.py'') \<longrightarrow>
      start_pack env (on_file_dropped env w p) =
        (on_file_dropped env w p)\<lparr>dialogs := dialogs w @
           [if pyinstaller_available w then Critical TITLE_ERROR MSG_NO_FILE
            else Warning TITLE_NOTICE MSG_INSTALL_FIRST]\<rparr>
      \<and> started (start_pack env (on_file_dropped env w p)) = started w
      \<and> build_thread (start_pack env (on_file_dropped env w p)) = build_thread w
      \<and> current_script (start_pack env (on_file_dropped env w p)) = Some p)"
proof -
  have a: "current_script (on_file_dropped env w q) = Some q \<and> pack_btn (on_file_dropped env w q)"
    if "path_exists env q \<or> endswith q (str ''.py'')"
    using that by (simp add: on_file_dropped_accepts)
  have b: "start_pack env (on_file_dropped env w p) =
        (on_file_dropped env w p)\<lparr>dialogs := dialogs w @
           [if pyinstaller_available w then Critical TITLE_ERROR MSG_NO_FILE
            else Warning TITLE_NOTICE MSG_INSTALL_FIRST]\<rparr>
      \<and> started (start_pack env (on_file_dropped env w p)) = started w
      \<and> build_thread (start_pack env (on_file_dropped env w p)) = build_thread w
      \<and> current_script (start_pack env (on_file_dropped env w p)) = Some p"
    if ne: "\<not> path_exists env p" and py: "endswith p (str ''.py'')"
  proof -
    have sel: "on_file_dropped env w p =
       w\<lparr>path_edit := line_edit_text env p, current_script := Some p, pack_btn := True,
         log_appended := log_appended w @ [MSG_SELECTED @ p]\<rparr>"
      using py by (simp add: on_file_dropped_accepts)
    have "p \<noteq> []" using py by (rule endswith_nonempty)
    with ne show ?thesis
      unfolding sel by (simp add: start_pack_def)
  qed
  from a b show ?thesis by blast
qed

theorem missing_script_accepted_then_rejected_witness:
  "current_script (on_file_dropped (sample_env (Exited [] 0)) (setup_ui (sample_env (Exited [] 0)))
       (str ''/w/gone.py'')) = Some (str ''/w/gone.py'')
   \<and> pack_btn (on_file_dropped (sample_env (Exited [] 0)) (setup_ui (sample_env (Exited [] 0)))
       (str ''/w/gone.py''))
   \<and> dialogs (start_pack (sample_env (Exited [] 0))
        (on_file_dropped (sample_env (Exited [] 0)) (setup_ui (sample_env (Exited [] 0)))
           (str ''/w/gone.py''))) = [Critical TITLE_ERROR MSG_NO_FILE]
   \<and> started (start_pack (sample_env (Exited [] 0))
        (on_file_dropped (sample_env (Exited [] 0)) (setup_ui (sample_env (Exited [] 0)))
           (str ''/w/gone.py''))) = []
   \<and> current_script (start_pack (sample_env (Exited [] 0))
        (on_file_dropped (sample_env (Exited [] 0)) (setup_ui (sample_env (Exited [] 0)))
           (str ''/w/gone.py''))) = Some (str ''/w/gone.py'')
   \<and> dialogs (start_pack (sample_env (Exited [] 0))
        (on_file_dropped (sample_env (Exited [] 0))
           ((setup_ui (sample_env (Exited [] 0)))\<lparr>pyinstaller_available := False\<rparr>)
           (str ''/w/gone.py''))) = [Warning TITLE_NOTICE MSG_INSTALL_FIRST]
   \<and> started (start_pack (sample_env (Exited [] 0))
        (on_file_dropped (sample_env (Exited [] 0))
           ((setup_ui (sample_env (Exited [] 0)))\<lparr>pyinstaller_available := False\<rparr>)
           (str ''/w/gone.py''))) = []"
proof -
  have ne: "\<not> path_exists (sample_env (Exited [] 0)) (str ''/w/gone.py'')"
    by (simp add: sample_env_def str_def)
  have py: "endswith (str ''/w/gone.py'') (str ''.py'')"
    by (simp add: endswith_def str_def)
  have av: "pyinstaller_available (setup_ui (sample_env (Exited [] 0)))"
    "dialogs (setup_ui (sample_env (Exited [] 0))) = []"
    "started (setup_ui (sample_env (Exited [] 0))) = []"
    by (simp_all add: setup_ui_def sample_env_def)
  show ?thesis
    using missing_script_accepted_then_rejected [of "sample_env (Exited [] 0)"
        "str ''/w/gone.py''" "setup_ui (sample_env (Exited [] 0))" "str ''/w/gone.py''"]
      missing_script_accepted_then_rejected [of "sample_env (Exited [] 0)"
        "str ''/w/gone.py''"
        "(setup_ui (sample_env (Exited [] 0)))\<lparr>pyinstaller_available := False\<rparr>"
        "str ''/w/gone.py''"]
      ne py av
    by (simp add: on_file_dropped_accepts)
qed

text \<open>
  The claim as first stated has \<open>start_pack\<close> reject the missing path with an error. Started
  without PyInstaller, the window takes a dropped \<open>/w/gone.py\<close> that does not exist as the
  current script, and the click on the pack button shows the warning to install PyInstaller,
  not the error about the file: the very box the click shows for the existing \<open>/w/a.py\<close>.
\<close>

theorem missing_script_gets_install_warning_counterexample:
  "\<not> path_exists ((sample_env (Exited [] 0))\<lparr>pyinstaller_found := False\<rparr>) (str ''/w/gone.py'')
   \<and> current_script (handle_all ((sample_env (Exited [] 0))\<lparr>pyinstaller_found := False\<rparr>)
        (init ((sample_env (Exited [] 0))\<lparr>pyinstaller_found := False\<rparr>))
        [Drop \<lparr>has_urls = True, urls = [str ''/w/gone.py'']\<rparr>, ClickPack])
       = Some (str ''/w/gone.py'')
   \<and> dialogs (handle_all ((sample_env (Exited [] 0))\<lparr>pyinstaller_found := False\<rparr>)
        (init ((sample_env (Exited [] 0))\<lparr>pyinstaller_found := False\<rparr>))
        [Drop \<lparr>has_urls = True, urls = [str ''/w/gone.py'']\<rparr>, ClickPack])
       = [Warning TITLE_NOTICE MSG_INSTALL_FIRST]
   \<and> dialogs (handle_all ((sample_env (Exited [] 0))\<lparr>pyinstaller_found := False\<rparr>)
        (init ((sample_env (Exited [] 0))\<lparr>pyinstaller_found := False\<rparr>))
        [Drop \<lparr>has_urls = True, urls = [str ''/w/a.py'']\<rparr>, ClickPack])
       = [Warning TITLE_NOTICE MSG_INSTALL_FIRST]"
  by (simp add: init_def handle_args_def setup_ui_def sample_env_def dropEvent_def
      on_file_dropped_def endswith_def start_pack_def log_def str_def)

end
